theory Spec2Isabelle
  imports Complex_Main "HOL-Library.Sublist" "HOL-Library.Char_ord" "HOL-Library.List_Lexorder"
begin

section \<open>Python strings and exceptions\<close>

text \<open>
  A Python \<open>str\<close> is modelled as a \<open>string\<close> whose characters are the code points
  below 256, so \<open>length\<close> is Python's \<open>len\<close>.  \<open>str.strip()\<close> and \<open>str.split()\<close>
  without arguments treat as whitespace the code points for which \<open>str.isspace\<close> holds;
  below 256 these are 9-13, 28-32, 133 and 160.  \<open>str.lower()\<close> maps A-Z and the
  upper-case letters of the range 192-222 (215, the multiplication sign, is no letter)
  to the code point 32 above them.
\<close>

definition isspace :: "char \<Rightarrow> bool" where
  "isspace c = (of_char c \<in> {9, 10, 11, 12, 13, 28, 29, 30, 31, 32, 133, 160 :: nat})"

definition lower_char :: "char \<Rightarrow> char" where
  "lower_char c =
     (let n = (of_char c :: nat)
      in if (65 \<le> n \<and> n \<le> 90) \<or> (192 \<le> n \<and> n \<le> 222 \<and> n \<noteq> 215)
         then char_of (n + 32) else c)"

definition str_lower :: "string \<Rightarrow> string" where
  "str_lower s = map lower_char s"

definition str_strip :: "string \<Rightarrow> string" where
  "str_strip s = rev (dropWhile isspace (rev (dropWhile isspace s)))"

text \<open>\<open>s.startswith(p)\<close> and \<open>p in s\<close> for strings.\<close>

definition startswith :: "string \<Rightarrow> string \<Rightarrow> bool" where
  "startswith s p = prefix p s"

definition str_contains :: "string \<Rightarrow> string \<Rightarrow> bool" where
  "str_contains p s = sublist p s"

text \<open>
  \<open>s.split()\<close>: the maximal runs of non-whitespace characters, in order.  The first
  argument holds the characters of the current run, last one first.
\<close>

fun split_from :: "string \<Rightarrow> string \<Rightarrow> string list" where
  "split_from cur [] = (if cur = [] then [] else [rev cur])"
| "split_from cur (c # cs) =
     (if isspace c
      then (if cur = [] then split_from [] cs else rev cur # split_from [] cs)
      else split_from (c # cur) cs)"

definition str_split :: "string \<Rightarrow> string list" where
  "str_split s = split_from [] s"

text \<open>
  Exceptions are values.  Only subclasses of \<open>Exception\<close> are modelled; a class is
  named when some handler of the program tells it apart, \<open>OtherException\<close> stands for
  every other subclass.  \<open>FileNotFoundError\<close> is a subclass of \<open>OSError\<close>.  The second
  component is \<open>str(e)\<close>.
\<close>

datatype exn_class =
  FileNotFoundError | OSError | TimeoutExpired | EOFError | ValueError
  | PickleError | AttributeError | OtherException

datatype py_exn = Exn (exn_kind: exn_class) (exn_str: string)

definition is_OSError :: "py_exn \<Rightarrow> bool" where
  "is_OSError e = (exn_kind e = FileNotFoundError \<or> exn_kind e = OSError)"

section \<open>The execution gateway (agent/dynamic\_tools.py)\<close>

definition DANGEROUS_COMMANDS :: "string set" where
  "DANGEROUS_COMMANDS =
     {''rm'', ''del'', ''erase'', ''format'', ''mkfs'', ''dd'', ''mv'', ''move'', ''rd'',
      ''rmdir'', ''remove-item'', ''clear-disk''}"

text \<open>
  What a run of \<open>subprocess.run(argv, capture_output=True, text=True, timeout=t)\<close> gives
  back, and the host the program runs on: the line \<open>input()\<close> reads (\<open>None\<close> when the
  input source is at end of file), the outcome of running an argument vector under a
  timeout, and what the scanner observes: the platform name, the names the walk over the
  directories of \<open>PATH\<close> collects (\<open>discover_executables_from_path\<close>, each already
  lower-cased and without its extension), the truth value of \<open>shutil.which\<close>, and the
  random numbers \<open>random.sample\<close> draws.
\<close>

record completed_process =
  returncode :: int
  stdout :: string
  stderr :: string

record host =
  input_line :: "string option"
  subprocess_run :: "string list \<Rightarrow> nat \<Rightarrow> py_exn + completed_process"
  platform_system :: string
  path_executables :: "string list"
  which :: "string \<Rightarrow> bool"
  random_source :: "nat \<Rightarrow> nat"

text \<open>
  The observable effects of a call of the gateway, in order: the confirmation prompt
  for a command line, and the launch of a child process with an argument vector.
\<close>

datatype event = Prompted string string | Spawned "string list"

fun is_spawn :: "event \<Rightarrow> bool" where
  "is_spawn (Spawned argv) = True"
| "is_spawn (Prompted c a) = False"

text \<open>\<open>input(prompt)\<close>: the line read, or \<open>EOFError\<close>.\<close>

definition py_input :: "host \<Rightarrow> py_exn + string" where
  "py_input h = (case input_line h of
                   None \<Rightarrow> Inl (Exn EOFError ''EOF when reading a line'')
                 | Some line \<Rightarrow> Inr line)"

text \<open>
  \<open>human_in_the_loop_confirmation\<close>: the reply is lower-cased and stripped before it is
  compared with \<open>yes\<close>; \<open>EOFError\<close> is caught and answers \<open>False\<close>, any other exception
  leaves the function.
\<close>

definition human_in_the_loop_confirmation :: "host \<Rightarrow> string \<Rightarrow> string \<Rightarrow> py_exn + bool" where
  "human_in_the_loop_confirmation h command_name args =
     (case py_input h of
        Inr line \<Rightarrow> Inr (str_strip (str_lower line) = ''yes'')
      | Inl e \<Rightarrow> if exn_kind e = EOFError then Inr False else Inl e)"

definition SUDO_FORBIDDEN :: string where
  "SUDO_FORBIDDEN = ''Error: sudo access is strictly forbidden.''"

definition CANCELLED :: string where
  "CANCELLED = ''Execution cancelled by user.''"

definition NO_OUTPUT :: string where
  "NO_OUTPUT = ''Command executed successfully with no output.''"

definition TIMED_OUT :: string where
  "TIMED_OUT = ''Error: Command timed out after 30 seconds.''"

definition not_found_message :: "string \<Rightarrow> string" where
  "not_found_message command_name =
     ''Error: Command '' @ [CHR 0x27] @ command_name @ [CHR 0x27] @ '' not found.''"

definition unexpected_message :: "py_exn \<Rightarrow> string" where
  "unexpected_message e = ''An unexpected error occurred: '' @ exn_str e"

text \<open>The text built from a completed run (the body of the \<open>try\<close> after the run).\<close>

definition format_output :: "completed_process \<Rightarrow> string" where
  "format_output result =
     (let output = '''';
          output = (if stdout result \<noteq> []
                    then output @ ''STDOUT:'' @ [CHR 0x0A] @ stdout result @ [CHR 0x0A]
                    else output);
          output = (if stderr result \<noteq> []
                    then output @ ''STDERR:'' @ [CHR 0x0A] @ stderr result @ [CHR 0x0A]
                    else output)
      in if output \<noteq> [] then output else NO_OUTPUT)"

text \<open>
  The \<open>try\<close> block of \<open>_execute_command\<close> with its three handlers, in the source's
  order: \<open>FileNotFoundError\<close>, \<open>subprocess.TimeoutExpired\<close>, \<open>Exception\<close>.
\<close>

definition run_command :: "host \<Rightarrow> string \<Rightarrow> string \<Rightarrow> py_exn + string" where
  "run_command h command_name args =
     (case subprocess_run h (command_name # str_split args) 30 of
        Inr result \<Rightarrow> Inr (format_output result)
      | Inl e \<Rightarrow>
          if exn_kind e = FileNotFoundError then Inr (not_found_message command_name)
          else if exn_kind e = TimeoutExpired then Inr TIMED_OUT
          else Inr (unexpected_message e))"

text \<open>
  \<open>_execute_command\<close>: the result (a string, or the exception that leaves the function)
  and the effects.  The confirmation is asked outside the \<open>try\<close> block.
\<close>

definition execute_command :: "host \<Rightarrow> string \<Rightarrow> string \<Rightarrow> (py_exn + string) \<times> event list" where
  "execute_command h name args =
     (let command_name = str_strip (str_lower name)
      in if command_name = ''sudo'' \<or> (args \<noteq> [] \<and> startswith (str_strip args) ''sudo'')
         then (Inr SUDO_FORBIDDEN, [])
         else if command_name \<in> DANGEROUS_COMMANDS
         then (case human_in_the_loop_confirmation h command_name args of
                 Inl e \<Rightarrow> (Inl e, [Prompted command_name args])
               | Inr confirmed \<Rightarrow>
                   if \<not> confirmed
                   then (Inr CANCELLED, [Prompted command_name args])
                   else (run_command h command_name args,
                         [Prompted command_name args, Spawned (command_name # str_split args)]))
         else (run_command h command_name args, [Spawned (command_name # str_split args)]))"

section \<open>The scanner (agent/dynamic\_tools.py)\<close>

definition MAX_TOOLS_TO_CREATE :: nat where
  "MAX_TOOLS_TO_CREATE = 2000"

definition MAX_HELP_TEXT_LENGTH :: nat where
  "MAX_HELP_TEXT_LENGTH = 30000"

definition BASE_COMMANDS_TO_EXCLUDE :: "string set" where
  "BASE_COMMANDS_TO_EXCLUDE =
     {''sudo'', ''su'', ''doas'', ''exit'', ''logout'', ''login'', ''passwd'', ''shutdown'',
      ''reboot'', ''kill'', ''pkill'', ''killall'', ''bg'', ''fg'', ''jobs'', ''alias'',
      ''unalias'', ''source'', ''export'', ''set'', ''unset'', ''history'', ''let'', ''eval'',
      ''exec'', ''sh'', ''bash'', ''zsh'', ''python'', ''pip'', ''conda'', ''docker'', ''git'',
      ''make''}"

definition essential_commands :: "string list" where
  "essential_commands =
     [''mkdir'', ''mv'', ''cp'', ''rm'', ''ls'', ''cd'', ''pwd'', ''cat'', ''touch'']"

definition NO_HELP :: string where
  "NO_HELP = ''No help page found.''"

text \<open>
  \<open>get_command_help\<close>.  The handler catches \<open>FileNotFoundError\<close>,
  \<open>subprocess.TimeoutExpired\<close> and \<open>OSError\<close>; any other exception leaves the function.
\<close>

definition help_handler :: "py_exn \<Rightarrow> py_exn + string" where
  "help_handler e =
     (if exn_kind e = FileNotFoundError \<or> exn_kind e = TimeoutExpired \<or> is_OSError e
      then Inr NO_HELP else Inl e)"

definition get_command_help :: "host \<Rightarrow> string \<Rightarrow> py_exn + string" where
  "get_command_help h command =
     (case subprocess_run h [command, ''--help''] 5 of
        Inl e \<Rightarrow> help_handler e
      | Inr result \<Rightarrow>
          if returncode result = 0 \<and> stdout result \<noteq> [] then Inr (stdout result)
          else if platform_system h \<noteq> ''Windows''
          then (case subprocess_run h [''man'', command] 5 of
                  Inl e \<Rightarrow> help_handler e
                | Inr man_result \<Rightarrow>
                    if returncode man_result = 0 \<and> stdout man_result \<noteq> []
                    then Inr (stdout man_result) else Inr NO_HELP)
          else (case subprocess_run h [command, ''/?''] 5 of
                  Inl e \<Rightarrow> help_handler e
                | Inr help_result \<Rightarrow>
                    if returncode help_result = 0 \<and> stdout help_result \<noteq> []
                    then Inr (stdout help_result) else Inr NO_HELP))"

definition known_managers :: "string \<Rightarrow> string list option" where
  "known_managers system =
     (if system = ''Linux''
      then Some [''apt'', ''yum'', ''dnf'', ''pacman'', ''zypper'', ''apt-get'', ''dpkg'']
      else if system = ''Darwin'' then Some [''brew'']
      else if system = ''Windows'' then Some [''choco'', ''winget'', ''scoop'']
      else None)"

definition discover_package_managers :: "host \<Rightarrow> string set" where
  "discover_package_managers h =
     (case known_managers (platform_system h) of
        None \<Rightarrow> {}
      | Some managers \<Rightarrow> set (filter (which h) managers))"

definition discover_executables_from_path :: "host \<Rightarrow> string set" where
  "discover_executables_from_path h = set (path_executables h)"

definition COMMANDS_TO_EXCLUDE :: "host \<Rightarrow> string set" where
  "COMMANDS_TO_EXCLUDE h = BASE_COMMANDS_TO_EXCLUDE \<union> discover_package_managers h"

text \<open>\<open>sorted(list(all_cmds - COMMANDS_TO_EXCLUDE))\<close>; strings are ordered by code points.\<close>

definition sorted_valid_cmds :: "host \<Rightarrow> string list" where
  "sorted_valid_cmds h =
     sorted_list_of_set (discover_executables_from_path h - COMMANDS_TO_EXCLUDE h)"

text \<open>The loop over \<open>essential_commands\<close> that appends the ones \<open>shutil.which\<close> finds.\<close>

fun add_essentials :: "host \<Rightarrow> string list \<Rightarrow> string list \<Rightarrow> string list" where
  "add_essentials h [] valid_cmds = valid_cmds"
| "add_essentials h (cmd # rest) valid_cmds =
     add_essentials h rest
       (if which h cmd \<and> cmd \<notin> set valid_cmds then valid_cmds @ [cmd] else valid_cmds)"

definition valid_cmds_with_essentials :: "host \<Rightarrow> string list" where
  "valid_cmds_with_essentials h = add_essentials h essential_commands (sorted_valid_cmds h)"

text \<open>
  \<open>random.sample(population, k)\<close>: \<open>ValueError\<close> when the sample is larger than the
  population, else \<open>k\<close> elements at \<open>k\<close> different positions.  Each element is drawn
  at a position the random source picks among those left, and taken out.
\<close>

fun draw :: "(nat \<Rightarrow> nat) \<Rightarrow> 'a list \<Rightarrow> nat \<Rightarrow> 'a list" where
  "draw rs pool 0 = []"
| "draw rs pool (Suc k) =
     (let j = rs (Suc k) mod length pool
      in pool ! j # draw rs (take j pool @ drop (Suc j) pool) k)"

definition random_sample :: "(nat \<Rightarrow> nat) \<Rightarrow> 'a list \<Rightarrow> nat \<Rightarrow> py_exn + 'a list" where
  "random_sample rs population k =
     (if length population < k
      then Inl (Exn ValueError ''Sample larger than population or is negative'')
      else Inr (draw rs population k))"

definition essential_found :: "string list \<Rightarrow> string list" where
  "essential_found valid_cmds = filter (\<lambda>cmd. cmd \<in> set valid_cmds) essential_commands"

definition other_cmds :: "string list \<Rightarrow> string list" where
  "other_cmds valid_cmds = filter (\<lambda>cmd. cmd \<notin> set essential_commands) valid_cmds"

text \<open>
  The ceiling enforcement of \<open>load_system_command_tools\<close>, with the ceiling
  (\<open>MAX_TOOLS_TO_CREATE\<close> in the program) as its first argument.  \<open>remaining_slots\<close> is
  a Python integer and may be negative.
\<close>

definition enforce_ceiling :: "nat \<Rightarrow> (nat \<Rightarrow> nat) \<Rightarrow> string list \<Rightarrow> py_exn + string list" where
  "enforce_ceiling max_tools rs valid_cmds =
     (if length valid_cmds > max_tools
      then (let remaining_slots = int max_tools - int (length (essential_found valid_cmds))
            in if remaining_slots > 0
               then (case random_sample rs (other_cmds valid_cmds)
                            (min (nat remaining_slots) (length (other_cmds valid_cmds))) of
                       Inl e \<Rightarrow> Inl e
                     | Inr sampled_others \<Rightarrow> Inr (essential_found valid_cmds @ sampled_others))
               else Inr (take max_tools (essential_found valid_cmds)))
      else Inr valid_cmds)"

definition candidate_commands :: "nat \<Rightarrow> host \<Rightarrow> py_exn + string list" where
  "candidate_commands max_tools h =
     enforce_ceiling max_tools (random_source h) (valid_cmds_with_essentials h)"

text \<open>
  A \<open>Tool\<close>: its name, its description and the command its \<open>CommandExecutor\<close> runs.
\<close>

record tool =
  tool_name :: string
  tool_description :: string
  tool_func :: string

definition TRUNCATION_MARKER :: string where
  "TRUNCATION_MARKER = CHR 0x0A # ''... (description truncated)''"

definition truncate_help :: "string \<Rightarrow> string" where
  "truncate_help help_text =
     (if length help_text > MAX_HELP_TEXT_LENGTH
      then take MAX_HELP_TEXT_LENGTH help_text @ TRUNCATION_MARKER
      else help_text)"

definition describe :: "string \<Rightarrow> string \<Rightarrow> string" where
  "describe command help_text =
     ''Executes the '' @ [CHR 0x27] @ command @ [CHR 0x27] @ '' command. Its help page is:''
       @ [CHR 0x0A] @ ''---'' @ [CHR 0x0A] @ help_text"

text \<open>The body of the loop that creates the tools, from the help text on.\<close>

definition make_tool :: "string \<Rightarrow> string \<Rightarrow> tool option" where
  "make_tool command fetched =
     (let help_text = truncate_help fetched
      in if help_text = [] \<or> str_contains ''No help page found'' help_text
         then (if command \<in> set essential_commands
               then Some \<lparr>tool_name = command,
                          tool_description =
                            describe command (''Essential file system command: '' @ command),
                          tool_func = command\<rparr>
               else None)
         else Some \<lparr>tool_name = command, tool_description = describe command help_text,
                    tool_func = command\<rparr>)"

fun create_tools :: "host \<Rightarrow> string list \<Rightarrow> py_exn + tool list" where
  "create_tools h [] = Inr []"
| "create_tools h (command # rest) =
     (case get_command_help h command of
        Inl e \<Rightarrow> Inl e
      | Inr help_text \<Rightarrow>
          (case create_tools h rest of
             Inl e \<Rightarrow> Inl e
           | Inr tools \<Rightarrow>
               Inr (case make_tool command help_text of
                      None \<Rightarrow> tools
                    | Some t \<Rightarrow> t # tools)))"

definition load_system_command_tools :: "host \<Rightarrow> py_exn + tool list" where
  "load_system_command_tools h =
     (case candidate_commands MAX_TOOLS_TO_CREATE h of
        Inl e \<Rightarrow> Inl e
      | Inr valid_cmds \<Rightarrow> create_tools h valid_cmds)"

section \<open>Python values\<close>

text \<open>
  The values the dynamically typed parts of the program handle: arguments of a call of
  \<open>search\<close>, and whatever \<open>pickle.load\<close> returns.  A tuple or a list is a \<open>PSeq\<close>, a
  dictionary with string keys a \<open>PDict\<close> (its items in insertion order), any other object
  a \<open>PObj\<close> with its attributes.  \<open>bool\<close> is a subclass of \<open>int\<close>.
\<close>

datatype pyval =
  PNone | PBool bool | PInt int | PStr string
  | PSeq "pyval list" | PDict "(string \<times> pyval) list" | PObj "(string \<times> pyval) list"

fun isinstance_int :: "pyval \<Rightarrow> bool" where
  "isinstance_int (PInt i) = True"
| "isinstance_int (PBool b) = True"
| "isinstance_int v = False"

fun int_of :: "pyval \<Rightarrow> int" where
  "int_of (PInt i) = i"
| "int_of (PBool b) = (if b then 1 else 0)"
| "int_of v = 0"

fun hasattr :: "pyval \<Rightarrow> string \<Rightarrow> bool" where
  "hasattr (PObj attrs) a = (map_of attrs a \<noteq> None)"
| "hasattr v a = False"

section \<open>The search adapter (agent/agent\_core.py, MilvusStoreWrapper.search)\<close>

text \<open>
  The store: Python's \<open>str\<close> on a value that is no string, and the vector store's
  \<open>similarity_search_with_score(query, k=k)\<close>, which returns documents (their metadata)
  with scores or raises.
\<close>

record document =
  metadata :: "(string \<times> string) list"

record search_result =
  key :: string
  score :: real

record store =
  str_of :: "pyval \<Rightarrow> string"
  similarity_search_with_score :: "string \<Rightarrow> pyval \<Rightarrow> py_exn + (document \<times> real) list"

definition py_str :: "store \<Rightarrow> pyval \<Rightarrow> string" where
  "py_str st v = (case v of PStr s \<Rightarrow> s | _ \<Rightarrow> str_of st v)"

text \<open>The query taken from the first positional argument (the \<open>if\<close> chain on its type).\<close>

definition positional_query :: "store \<Rightarrow> pyval \<Rightarrow> string" where
  "positional_query st first_arg =
     (case first_arg of
        PStr s \<Rightarrow> s
      | PSeq (x # xs) \<Rightarrow> py_str st x
      | PObj attrs \<Rightarrow>
          (case map_of attrs ''query'' of
             Some q \<Rightarrow> py_str st q
           | None \<Rightarrow> py_str st first_arg)
      | _ \<Rightarrow> py_str st first_arg)"

text \<open>
  The first part of \<open>search\<close>, up to the test of the query: the assignments to \<open>query\<close>
  and \<open>k\<close> in the source's order.  \<open>None\<close> is Python's \<open>None\<close>.
\<close>

definition search_normalize ::
  "store \<Rightarrow> pyval list \<Rightarrow> (string \<rightharpoonup> pyval) \<Rightarrow> string option \<times> pyval" where
  "search_normalize st args kwargs =
     (let query = None;
          k = PInt 5;
          query = (case args of [] \<Rightarrow> query
                   | first_arg # others \<Rightarrow> Some (positional_query st first_arg));
          k = (case args of
                 first_arg # second_arg # others \<Rightarrow>
                   (if isinstance_int second_arg then second_arg else PInt 5)
               | _ \<Rightarrow> k);
          query = (case kwargs ''query'' of Some q \<Rightarrow> Some (py_str st q) | None \<Rightarrow> query);
          k = (case kwargs ''k'' of
                 Some v \<Rightarrow> (if isinstance_int v then v else PInt 5)
               | None \<Rightarrow>
                   (case kwargs ''limit'' of
                      Some l \<Rightarrow> (if isinstance_int l then PInt (max (int_of l * 3) 10)
                                 else PInt 10)
                    | None \<Rightarrow> k))
      in (query, k))"

text \<open>
  The body of the \<open>try\<close> block: the lookup, then one \<open>SearchResult\<close> per document, whose
  key is \<open>doc.metadata["tool_id"]\<close> (\<open>KeyError\<close> when the metadata has none).  The lines
  that print the results return nothing.
\<close>

fun search_results :: "(document \<times> real) list \<Rightarrow> py_exn + search_result list" where
  "search_results [] = Inr []"
| "search_results ((doc, sc) # rest) =
     (case map_of (metadata doc) ''tool_id'' of
        None \<Rightarrow> Inl (Exn OtherException ''KeyError: tool_id'')
      | Some tool_id \<Rightarrow>
          (case search_results rest of
             Inl e \<Rightarrow> Inl e
           | Inr found \<Rightarrow> Inr (\<lparr>key = tool_id, score = sc\<rparr> # found)))"

definition lookup :: "store \<Rightarrow> string \<Rightarrow> pyval \<Rightarrow> py_exn + search_result list" where
  "lookup st query k =
     (case similarity_search_with_score st query k of
        Inl e \<Rightarrow> Inl e
      | Inr results \<Rightarrow> search_results results)"

text \<open>
  \<open>search\<close>: an unusable query returns the empty list; \<open>except Exception\<close> around the
  lookup returns the empty list.
\<close>

definition search :: "store \<Rightarrow> pyval list \<Rightarrow> (string \<rightharpoonup> pyval) \<Rightarrow> py_exn + search_result list" where
  "search st args kwargs =
     (case search_normalize st args kwargs of
        (query, k) \<Rightarrow>
          (case query of
             None \<Rightarrow> Inr []
           | Some q \<Rightarrow>
               if q = [] then Inr []
               else (case lookup st q k of
                       Inr found \<Rightarrow> Inr found
                     | Inl e \<Rightarrow> Inr [])))"

text \<open>
  The resolution rule in words, as an order of precedence.  Query: the \<open>query\<close> keyword,
  else the first positional argument (itself when a string, its first element when a
  non-empty sequence, its \<open>query\<close> attribute when it has one, else its \<open>str\<close>).  Count: the
  \<open>k\<close> keyword (5 when it is no integer), else the \<open>limit\<close> keyword as \<open>max(3 * limit, 10)\<close>
  (10 when it is no integer), else the second positional argument (5 when it is no
  integer), else 5.
\<close>

definition resolve_query :: "store \<Rightarrow> pyval list \<Rightarrow> (string \<rightharpoonup> pyval) \<Rightarrow> string option" where
  "resolve_query st args kwargs =
     (case kwargs ''query'' of
        Some q \<Rightarrow> Some (py_str st q)
      | None \<Rightarrow>
          (case args of
             [] \<Rightarrow> None
           | first_arg # others \<Rightarrow>
               Some (case first_arg of
                       PStr s \<Rightarrow> s
                     | PSeq (x # xs) \<Rightarrow> py_str st x
                     | PObj attrs \<Rightarrow>
                         (case map_of attrs ''query'' of
                            Some q \<Rightarrow> py_str st q
                          | None \<Rightarrow> str_of st first_arg)
                     | _ \<Rightarrow> str_of st first_arg)))"

definition resolve_count :: "pyval list \<Rightarrow> (string \<rightharpoonup> pyval) \<Rightarrow> pyval" where
  "resolve_count args kwargs =
     (case kwargs ''k'' of
        Some v \<Rightarrow> if isinstance_int v then v else PInt 5
      | None \<Rightarrow>
          (case kwargs ''limit'' of
             Some l \<Rightarrow> if isinstance_int l then PInt (max (3 * int_of l) 10) else PInt 10
           | None \<Rightarrow>
               (if length args > 1
                then (if isinstance_int (args ! 1) then args ! 1 else PInt 5)
                else PInt 5)))"

section \<open>The registry cache (agent/agent\_core.py)\<close>

definition TOOL_REGISTRY_CACHE_PATH :: string where
  "TOOL_REGISTRY_CACHE_PATH = ''.tool_registry.pkl''"

definition backup_path :: string where
  "backup_path = TOOL_REGISTRY_CACHE_PATH @ ''.backup''"

text \<open>
  A file is known by what the program can observe of it: its size is zero
  (\<open>Empty_file\<close>), or \<open>pickle.load\<close> returns a value from it (\<open>Pickled\<close>), or opening and
  loading it raises (\<open>Unloadable\<close>).  \<open>pickle.dump\<close> of a value writes a file that loads
  as that value.  A file system maps paths to files.
\<close>

datatype file_content = Empty_file | Pickled pyval | Unloadable py_exn

type_synonym filesystem = "string \<rightharpoonup> file_content"

text \<open>
  The operating system may refuse a rename or a removal (\<open>OSError\<close>; the program
  catches it around each such call), and writing the cache may succeed, fail before
  the file is created, or fail after it, leaving what was written so far.
\<close>

datatype fs_op = Rename string string | Remove string

datatype write_outcome = Written | Open_failed py_exn | Dump_failed py_exn file_content

record os_env =
  refuses :: "fs_op \<Rightarrow> bool"
  write_outcome_of :: "pyval \<Rightarrow> write_outcome"

text \<open>\<open>os.rename\<close> and \<open>os.remove\<close>: \<open>None\<close> is \<open>OSError\<close>, the file system unchanged.\<close>

definition os_rename :: "os_env \<Rightarrow> string \<Rightarrow> string \<Rightarrow> filesystem \<Rightarrow> filesystem option" where
  "os_rename env src dst fs =
     (if refuses env (Rename src dst) \<or> fs src = None then None
      else Some ((fs(src := None))(dst := fs src)))"

definition os_remove :: "os_env \<Rightarrow> string \<Rightarrow> filesystem \<Rightarrow> filesystem option" where
  "os_remove env path fs =
     (if refuses env (Remove path) \<or> fs path = None then None
      else Some (fs(path := None)))"

text \<open>\<open>with open(path, "wb") as f: pickle.dump(obj, f)\<close>: the exception raised, if any.\<close>

definition pickle_dump :: "os_env \<Rightarrow> string \<Rightarrow> pyval \<Rightarrow> filesystem \<Rightarrow> py_exn option \<times> filesystem" where
  "pickle_dump env path obj fs =
     (case write_outcome_of env obj of
        Written \<Rightarrow> (None, fs(path \<mapsto> Pickled obj))
      | Open_failed e \<Rightarrow> (Some e, fs)
      | Dump_failed e partial \<Rightarrow> (Some e, fs(path \<mapsto> partial)))"

text \<open>\<open>with open(path, "rb") as f: pickle.load(f)\<close>.\<close>

definition pickle_load :: "filesystem \<Rightarrow> string \<Rightarrow> py_exn + pyval" where
  "pickle_load fs path =
     (case fs path of
        None \<Rightarrow> Inl (Exn FileNotFoundError ''No such file or directory'')
      | Some Empty_file \<Rightarrow> Inl (Exn EOFError ''Ran out of input'')
      | Some (Pickled v) \<Rightarrow> Inr v
      | Some (Unloadable e) \<Rightarrow> Inl e)"

text \<open>The three checks on the loaded value; each raises \<open>ValueError\<close>.\<close>

definition has_tool_fields :: "string \<times> pyval \<Rightarrow> bool" where
  "has_tool_fields item = (hasattr (snd item) ''name'' \<and> hasattr (snd item) ''description'')"

definition validate_registry :: "pyval \<Rightarrow> py_exn + pyval" where
  "validate_registry tool_registry =
     (case tool_registry of
        PDict items \<Rightarrow>
          if length items = 0 then Inl (Exn ValueError ''Tool registry cache is empty'')
          else (case find (\<lambda>item. \<not> has_tool_fields item) items of
                  Some item \<Rightarrow>
                    Inl (Exn ValueError (''Invalid tool structure for tool_id: '' @ fst item))
                | None \<Rightarrow> Inr tool_registry)
      | _ \<Rightarrow> Inl (Exn ValueError ''Tool registry cache contains invalid data structure''))"

text \<open>The \<open>try\<close> block of \<open>load_tool_registry_from_cache\<close>, entered when the file exists.\<close>

definition load_attempt :: "os_env \<Rightarrow> filesystem \<Rightarrow> (py_exn + pyval option) \<times> filesystem" where
  "load_attempt env fs =
     (if fs TOOL_REGISTRY_CACHE_PATH = Some Empty_file
      then (case os_remove env TOOL_REGISTRY_CACHE_PATH fs of
              None \<Rightarrow> (Inl (Exn OSError ''remove''), fs)
            | Some fs1 \<Rightarrow> (Inr None, fs1))
      else (case pickle_load fs TOOL_REGISTRY_CACHE_PATH of
              Inl e \<Rightarrow> (Inl e, fs)
            | Inr tool_registry \<Rightarrow>
                (case validate_registry tool_registry of
                   Inl e \<Rightarrow> (Inl e, fs)
                 | Inr valid \<Rightarrow> (Inr (Some valid), fs))))"

text \<open>
  \<open>load_tool_registry_from_cache\<close>: the first handler
  (\<open>pickle.PickleError\<close>, \<open>EOFError\<close>, \<open>ValueError\<close>) removes the file, ignoring \<open>OSError\<close>;
  the second (\<open>Exception\<close>) only returns \<open>None\<close>.
\<close>

definition load_tool_registry_from_cache ::
  "os_env \<Rightarrow> filesystem \<Rightarrow> (py_exn + pyval option) \<times> filesystem" where
  "load_tool_registry_from_cache env fs =
     (if fs TOOL_REGISTRY_CACHE_PATH = None then (Inr None, fs)
      else (case load_attempt env fs of
              (Inr loaded, fs1) \<Rightarrow> (Inr loaded, fs1)
            | (Inl e, fs1) \<Rightarrow>
                if exn_kind e = PickleError \<or> exn_kind e = EOFError \<or> exn_kind e = ValueError
                then (Inr None,
                      case os_remove env TOOL_REGISTRY_CACHE_PATH fs1 of
                        None \<Rightarrow> fs1
                      | Some fs2 \<Rightarrow> fs2)
                else (Inr None, fs1)))"

text \<open>
  \<open>save_tool_registry_to_cache\<close>: the backup (an \<open>OSError\<close> of the rename is ignored),
  the write, then the removal of the backup and \<open>True\<close>, or, when the write raised, the
  attempt to rename the backup back and \<open>False\<close>.
\<close>

definition save_tool_registry_to_cache :: "os_env \<Rightarrow> pyval \<Rightarrow> filesystem \<Rightarrow> bool \<times> filesystem" where
  "save_tool_registry_to_cache env tool_registry fs =
     (let fs1 = (if fs TOOL_REGISTRY_CACHE_PATH = None then fs
                 else (case os_rename env TOOL_REGISTRY_CACHE_PATH backup_path fs of
                         None \<Rightarrow> fs
                       | Some renamed \<Rightarrow> renamed))
      in case pickle_dump env TOOL_REGISTRY_CACHE_PATH tool_registry fs1 of
           (None, fs2) \<Rightarrow>
             (True,
              if fs2 backup_path = None then fs2
              else (case os_remove env backup_path fs2 of None \<Rightarrow> fs2 | Some fs3 \<Rightarrow> fs3))
         | (Some e, fs2) \<Rightarrow>
             (False,
              if fs2 backup_path = None then fs2
              else (case os_rename env backup_path TOOL_REGISTRY_CACHE_PATH fs2 of
                      None \<Rightarrow> fs2
                    | Some fs3 \<Rightarrow> fs3)))"

text \<open>
  The registry \<open>create_bigtool_agent\<close> builds:
  \<open>{str(uuid.uuid4()): tool for tool in all_tools}\<close>.  The identifiers are the host's, the
  \<open>i\<close>-th drawn being \<open>uuid4 i\<close>; a key met again keeps its place and takes the new value.
\<close>

definition tool_obj :: "tool \<Rightarrow> pyval" where
  "tool_obj t =
     PObj [(''name'', PStr (tool_name t)), (''description'', PStr (tool_description t)),
           (''func'', PObj [(''command_name'', PStr (tool_func t))])]"

fun dict_put :: "string \<Rightarrow> pyval \<Rightarrow> (string \<times> pyval) list \<Rightarrow> (string \<times> pyval) list" where
  "dict_put k v [] = [(k, v)]"
| "dict_put k v ((k', v') # rest) =
     (if k = k' then (k, v) # rest else (k', v') # dict_put k v rest)"

fun registry_items ::
  "(nat \<Rightarrow> string) \<Rightarrow> nat \<Rightarrow> tool list \<Rightarrow> (string \<times> pyval) list \<Rightarrow> (string \<times> pyval) list" where
  "registry_items uuid4 i [] items = items"
| "registry_items uuid4 i (t # ts) items =
     registry_items uuid4 (Suc i) ts (dict_put (uuid4 i) (tool_obj t) items)"

definition build_registry :: "(nat \<Rightarrow> string) \<Rightarrow> tool list \<Rightarrow> pyval" where
  "build_registry uuid4 all_tools = PDict (registry_items uuid4 0 all_tools [])"

section \<open>Concrete hosts\<close>

text \<open>Hosts and files at which the properties below are evaluated.\<close>

definition missing_program :: "string list \<Rightarrow> nat \<Rightarrow> py_exn + completed_process" where
  "missing_program argv t = Inl (Exn FileNotFoundError ''No such file or directory'')"



definition silent_program :: "string list \<Rightarrow> nat \<Rightarrow> py_exn + completed_process" where
  "silent_program argv t = Inr \<lparr>returncode = 0, stdout = [], stderr = []\<rparr>"

definition absent :: "string \<Rightarrow> bool" where
  "absent c = False"

definition lowest :: "nat \<Rightarrow> nat" where
  "lowest i = 0"

definition gateway_host ::
  "string option \<Rightarrow> (string list \<Rightarrow> nat \<Rightarrow> py_exn + completed_process) \<Rightarrow> host" where
  "gateway_host reply run =
     \<lparr>input_line = reply, subprocess_run = run, platform_system = ''Linux'',
      path_executables = [], which = absent, random_source = lowest\<rparr>"

definition opaque_str :: "pyval \<Rightarrow> string" where
  "opaque_str v = ''<object>''"

definition unreachable_backend :: "string \<Rightarrow> pyval \<Rightarrow> py_exn + (document \<times> real) list" where
  "unreachable_backend q k = Inl (Exn OtherException ''connection refused'')"

definition one_hit_backend :: "string \<Rightarrow> pyval \<Rightarrow> py_exn + (document \<times> real) list" where
  "one_hit_backend q k = Inr [(\<lparr>metadata = [(''tool_id'', ''id-1'')]\<rparr>, 0)]"

definition down_store :: store where
  "down_store = \<lparr>str_of = opaque_str, similarity_search_with_score = unreachable_backend\<rparr>"

definition up_store :: store where
  "up_store = \<lparr>str_of = opaque_str, similarity_search_with_score = one_hit_backend\<rparr>"

definition permissive :: "fs_op \<Rightarrow> bool" where
  "permissive op = False"

definition refusing :: "fs_op \<Rightarrow> bool" where
  "refusing op = True"

definition always_written :: "pyval \<Rightarrow> write_outcome" where
  "always_written v = Written"

definition disk_full :: "pyval \<Rightarrow> write_outcome" where
  "disk_full v = Dump_failed (Exn OSError ''No space left on device'') Empty_file"

definition kind_os :: os_env where
  "kind_os = \<lparr>refuses = permissive, write_outcome_of = always_written\<rparr>"


definition full_os :: os_env where
  "full_os = \<lparr>refuses = permissive, write_outcome_of = disk_full\<rparr>"

definition hostile_os :: os_env where
  "hostile_os = \<lparr>refuses = refusing, write_outcome_of = disk_full\<rparr>"

definition no_files :: filesystem where
  "no_files = Map.empty"

definition cache_holding :: "file_content \<Rightarrow> filesystem" where
  "cache_holding c = [TOOL_REGISTRY_CACHE_PATH \<mapsto> c]"



definition sample_uuid :: "nat \<Rightarrow> string" where
  "sample_uuid i = ''id-'' @ replicate i (CHR ''x'')"

definition ls_tool :: tool where
  "ls_tool = \<lparr>tool_name = ''ls'', tool_description = describe ''ls'' ''Usage: ls [FILE]'',
              tool_func = ''ls''\<rparr>"

definition cat_tool :: tool where
  "cat_tool = \<lparr>tool_name = ''cat'', tool_description = describe ''cat'' ''Usage: cat [FILE]'',
               tool_func = ''cat''\<rparr>"

definition only_ls :: "string \<Rightarrow> bool" where
  "only_ls c = (c = ''ls'')"

definition small_host :: host where
  "small_host =
     \<lparr>input_line = None, subprocess_run = missing_program, platform_system = ''Linux'',
      path_executables = [''cc'', ''sudo'', ''aa'', ''bb'', ''aa''], which = only_ls,
      random_source = lowest\<rparr>"

definition long_help :: string where
  "long_help = replicate 30001 (CHR ''a'')"

definition verbose_program :: "string list \<Rightarrow> nat \<Rightarrow> py_exn + completed_process" where
  "verbose_program argv t = Inr \<lparr>returncode = 0, stdout = long_help, stderr = []\<rparr>"

definition verbose_host :: host where
  "verbose_host =
     \<lparr>input_line = None, subprocess_run = verbose_program, platform_system = ''Linux'',
      path_executables = [''ls''], which = absent, random_source = lowest\<rparr>"

section \<open>Properties of the execution gateway\<close>





lemma confirmation_total:
  "human_in_the_loop_confirmation h c a =
     Inr (case input_line h of None \<Rightarrow> False | Some line \<Rightarrow> str_strip (str_lower line) = ''yes'')"
  by (simp add: human_in_the_loop_confirmation_def py_input_def split: option.splits)




text \<open>
  \<open>sudo\<close> is the only name the elevation block tests for: the names \<open>su\<close> and
  \<open>doas\<close>, which the scanner leaves out of its tools, pass the gateway.
\<close>

lemma elevation_block_tests_sudo_only:
  "execute_command (gateway_host None silent_program) ''su'' ''-c id''
     = (Inr ''Command executed successfully with no output.'', [Spawned [''su'', ''-c'', ''id'']])
   \<and> execute_command (gateway_host None silent_program) ''doas'' ''id''
     = (Inr ''Command executed successfully with no output.'', [Spawned [''doas'', ''id'']])"
  by code_simp

text \<open>
  Claim C10.  The test on the argument string is a prefix test on its stripped form,
  not a comparison of its first word: whenever the stripped argument string begins with
  the four characters \<open>sudo\<close>, whatever follows them and whatever the name,
  \<open>_execute_command\<close> returns the rejection string and launches nothing.  The witness is
  the argument string \<open>sudoedit /etc/hosts\<close>.
\<close>

theorem sudo_prefix_rejected:
  assumes "startswith (str_strip args) ''sudo''"
  shows "execute_command h name args = (Inr ''Error: sudo access is strictly forbidden.'', [])"
proof -
  have "args \<noteq> []" using assms by (auto simp: startswith_def str_strip_def)
  with assms show ?thesis by (simp add: execute_command_def SUDO_FORBIDDEN_def)
qed

theorem sudo_prefix_rejected_witness:
  "startswith (str_strip ''  sudoedit /etc/hosts'') ''sudo''
   \<and> execute_command (gateway_host (Some ''yes'') silent_program) ''ls'' ''  sudoedit /etc/hosts''
       = (Inr ''Error: sudo access is strictly forbidden.'', [])"
proof -
  have p: "startswith (str_strip ''  sudoedit /etc/hosts'') ''sudo''" by code_simp
  show ?thesis
    using sudo_prefix_rejected [OF p, of "gateway_host (Some ''yes'') silent_program" "''ls''"] p
    by simp
qed

text \<open>
  Claim C2, as stated, fails: the elevation block comes before the confirmation gate,
  so a destructive command whose argument string begins with \<open>sudo\<close> is answered with
  the rejection string, not with the cancellation string, whatever the reply.
\<close>

theorem confirmation_gate_counterexample:
  "''rm'' \<in> DANGEROUS_COMMANDS
   \<and> input_line (gateway_host (Some ''no'') silent_program) = Some ''no''
   \<and> fst (execute_command (gateway_host (Some ''no'') silent_program) ''rm'' ''sudo rm -rf /'')
       = Inr ''Error: sudo access is strictly forbidden.''
   \<and> fst (execute_command (gateway_host (Some ''no'') silent_program) ''rm'' ''sudo rm -rf /'')
       \<noteq> Inr ''Execution cancelled by user.''"
proof -
  have p: "startswith (str_strip ''sudo rm -rf /'') ''sudo''" by code_simp
  show ?thesis
    by (simp add: DANGEROUS_COMMANDS_def gateway_host_def execute_command_def p SUDO_FORBIDDEN_def)
qed

text \<open>
  Claim C2, amended.  For a name that, lower-cased and stripped, is in the destructive
  set, and an argument string whose stripped form does not begin with \<open>sudo\<close>: when the
  input source is at end of file, or the reply, lower-cased and stripped, is not \<open>yes\<close>,
  \<open>_execute_command\<close> asks once, launches no child process and returns the cancellation
  string.
\<close>

theorem confirmation_gate_cancels:
  assumes "str_strip (str_lower name) \<in> DANGEROUS_COMMANDS"
    and "\<not> startswith (str_strip args) ''sudo''"
    and "case input_line h of None \<Rightarrow> True
         | Some line \<Rightarrow> str_strip (str_lower line) \<noteq> ''yes''"
  shows "execute_command h name args =
           (Inr ''Execution cancelled by user.'', [Prompted (str_strip (str_lower name)) args])
         \<and> \<not> list_ex is_spawn (snd (execute_command h name args))"
proof -
  have "str_strip (str_lower name) \<noteq> ''sudo''"
    using assms(1) by (auto simp: DANGEROUS_COMMANDS_def)
  moreover have "human_in_the_loop_confirmation h (str_strip (str_lower name)) args = Inr False"
    using assms(3) by (simp add: confirmation_total split: option.splits)
  ultimately show ?thesis
    using assms(1,2) by (simp add: execute_command_def CANCELLED_def)
qed

theorem confirmation_gate_cancels_witness:
  "execute_command (gateway_host (Some ''y'') silent_program) ''RM'' ''-rf /tmp/x''
     = (Inr ''Execution cancelled by user.'', [Prompted ''rm'' ''-rf /tmp/x''])
   \<and> \<not> list_ex is_spawn
         (snd (execute_command (gateway_host (Some ''y'') silent_program) ''RM'' ''-rf /tmp/x''))
   \<and> execute_command (gateway_host None silent_program) ''mv'' ''a b''
     = (Inr ''Execution cancelled by user.'', [Prompted ''mv'' ''a b''])"
proof -
  have n1: "str_strip (str_lower ''RM'') = ''rm''" and n2: "str_strip (str_lower ''mv'') = ''mv''"
    by code_simp+
  have d1: "str_strip (str_lower ''RM'') \<in> DANGEROUS_COMMANDS"
    and d2: "str_strip (str_lower ''mv'') \<in> DANGEROUS_COMMANDS"
    unfolding n1 n2 by (simp_all add: DANGEROUS_COMMANDS_def)
  have a1: "\<not> startswith (str_strip ''-rf /tmp/x'') ''sudo''"
    and a2: "\<not> startswith (str_strip ''a b'') ''sudo''"
    by code_simp+
  have r1: "case input_line (gateway_host (Some ''y'') silent_program) of None \<Rightarrow> True
            | Some line \<Rightarrow> str_strip (str_lower line) \<noteq> ''yes''"
    unfolding gateway_host_def by code_simp
  have r2: "case input_line (gateway_host None silent_program) of None \<Rightarrow> True
            | Some line \<Rightarrow> str_strip (str_lower line) \<noteq> ''yes''"
    by (simp add: gateway_host_def)
  show ?thesis
    using confirmation_gate_cancels [OF d1 a1 r1] confirmation_gate_cancels [OF d2 a2 r2]
    by (simp add: n1 n2)
qed

text \<open>
  The reply is compared after lower-casing and stripping: the reply \<open>YES\<close> between
  blanks is an affirmative one, and the command runs.
\<close>

lemma confirmation_normalises_reply:
  "execute_command (gateway_host (Some '' YES '') silent_program) ''rm'' ''-rf /tmp/x''
     = (Inr ''Command executed successfully with no output.'',
        [Prompted ''rm'' ''-rf /tmp/x'', Spawned [''rm'', ''-rf'', ''/tmp/x'']])"
  by code_simp



section \<open>Properties of the search adapter\<close>

lemma positional_query_cases:
  "positional_query st first_arg =
     (case first_arg of
        PStr s \<Rightarrow> s
      | PSeq (x # xs) \<Rightarrow> py_str st x
      | PObj attrs \<Rightarrow>
          (case map_of attrs ''query'' of
             Some q \<Rightarrow> py_str st q
           | None \<Rightarrow> str_of st first_arg)
      | _ \<Rightarrow> str_of st first_arg)"
  by (simp add: positional_query_def py_str_def split: pyval.splits list.splits option.splits)

lemma normalize_query: "fst (search_normalize st args kwargs) = resolve_query st args kwargs"
proof (cases args)
  case Nil
  then show ?thesis
    by (simp add: search_normalize_def resolve_query_def Let_def split: option.splits)
next
  case (Cons first_arg rest)
  then show ?thesis
    unfolding search_normalize_def resolve_query_def Let_def
    by (simp add: positional_query_cases split: option.splits)
qed

lemma normalize_count: "snd (search_normalize st args kwargs) = resolve_count args kwargs"
proof (cases args)
  case Nil
  then show ?thesis
    by (simp add: search_normalize_def resolve_count_def Let_def mult.commute split: option.splits)
next
  case (Cons first_arg rest)
  show ?thesis
  proof (cases rest)
    case Nil
    with Cons show ?thesis
      by (simp add: search_normalize_def resolve_count_def Let_def mult.commute split: option.splits)
  next
    case (Cons second_arg others)
    with \<open>args = first_arg # rest\<close> show ?thesis
      by (simp add: search_normalize_def resolve_count_def Let_def mult.commute split: option.splits)
  qed
qed

text \<open>
  Claim C6, as stated, fails: with neither a \<open>k\<close> nor a \<open>limit\<close> keyword the count is
  not always 5.  A second positional argument that is an integer is the count (the
  \<open>batch\<close> method calls \<open>search(op.query, op.k)\<close>).
\<close>

theorem search_count_counterexample:
  "Map.empty ''k'' = (None :: pyval option) \<and> Map.empty ''limit'' = (None :: pyval option)
   \<and> snd (search_normalize up_store [PStr ''disk usage'', PInt 7] Map.empty) = PInt 7
   \<and> snd (search_normalize up_store [PStr ''disk usage'', PInt 7] Map.empty) \<noteq> PInt 5"
  by (simp add: search_normalize_def)

text \<open>
  Claim C6, amended.  The assignments of \<open>search\<close> resolve the query and the count in
  this order of precedence.  Query: the \<open>query\<close> keyword, else the first positional
  argument (itself when a string, its first element when a non-empty sequence, its
  \<open>query\<close> attribute when it has one, else its \<open>str\<close>).  Count: the \<open>k\<close> keyword (5
  when it is no integer), else the \<open>limit\<close> keyword as \<open>max(3 * limit, 10)\<close> (10 when it
  is no integer), else the second positional argument when it is an integer, else 5.
  In particular the keyword \<open>limit = 4\<close> gives the count 12, and the one-element tuple
  \<open>("disk usage",)\<close> as first argument gives the query \<open>disk usage\<close> and the count 5.
\<close>

theorem search_normalize_precedence:
  "search_normalize st args kwargs = (resolve_query st args kwargs, resolve_count args kwargs)
   \<and> snd (search_normalize st [] [''limit'' \<mapsto> PInt 4]) = PInt 12
   \<and> search_normalize st [PSeq [PStr ''disk usage'']] Map.empty = (Some ''disk usage'', PInt 5)
   \<and> search_normalize st [PStr ''disk usage''] Map.empty = (Some ''disk usage'', PInt 5)"
proof (intro conjI)
  show "search_normalize st args kwargs = (resolve_query st args kwargs, resolve_count args kwargs)"
    using normalize_query [of st args kwargs] normalize_count [of st args kwargs]
    by (cases "search_normalize st args kwargs") simp
qed (simp_all add: search_normalize_def positional_query_def py_str_def)

theorem search_normalize_precedence_witness:
  "search_normalize up_store [PStr ''disk usage'', PInt 7] [''query'' \<mapsto> PStr ''free space'']
     = (Some ''free space'', PInt 7)
   \<and> search_normalize up_store [PStr ''disk usage'', PInt 7] [''k'' \<mapsto> PStr ''3'', ''limit'' \<mapsto> PInt 4]
     = (Some ''disk usage'', PInt 5)"
  using search_normalize_precedence [of up_store "[PStr ''disk usage'', PInt 7]" "[''query'' \<mapsto> PStr ''free space'']"]
    search_normalize_precedence [of up_store "[PStr ''disk usage'', PInt 7]" "[''k'' \<mapsto> PStr ''3'', ''limit'' \<mapsto> PInt 4]"]
  by (simp add: resolve_query_def resolve_count_def py_str_def)

text \<open>
  Claim C7.  \<open>search\<close> never raises.  It returns the empty list when no usable query
  is resolved (none, or the empty string), and it returns the empty list when the
  lookup of the vector store raises, whatever the exception: the caller sees the same
  value in both cases.
\<close>

theorem search_degrades_to_empty:
  "(\<exists>r. search st args kwargs = Inr r)
   \<and> (fst (search_normalize st args kwargs) = None \<or> fst (search_normalize st args kwargs) = Some []
        \<longrightarrow> search st args kwargs = Inr [])
   \<and> (search_normalize st args kwargs = (Some q, k) \<and> similarity_search_with_score st q k = Inl e
        \<longrightarrow> search st args kwargs = Inr [])"
  by (auto simp: search_def lookup_def split: prod.splits option.splits sum.splits)

theorem search_degrades_to_empty_witness:
  "search up_store [] [''limit'' \<mapsto> PInt 4] = Inr []
   \<and> search up_store [PStr ''''] Map.empty = Inr []
   \<and> search down_store [PStr ''disk usage''] Map.empty = Inr []"
proof -
  have q1: "fst (search_normalize up_store [] [''limit'' \<mapsto> PInt 4]) = None"
    and q2: "fst (search_normalize up_store [PStr ''''] Map.empty) = Some []"
    and q3: "search_normalize down_store [PStr ''disk usage''] Map.empty = (Some ''disk usage'', PInt 5)"
    by (simp_all add: search_normalize_def positional_query_def)
  have b: "similarity_search_with_score down_store ''disk usage'' (PInt 5)
             = Inl (Exn OtherException ''connection refused'')"
    by (simp add: down_store_def unreachable_backend_def)
  show ?thesis
    using search_degrades_to_empty [of up_store "[]" "[''limit'' \<mapsto> PInt 4]"]
      search_degrades_to_empty [of up_store "[PStr '''']" Map.empty]
      search_degrades_to_empty [of down_store "[PStr ''disk usage'']" Map.empty "''disk usage''" "PInt 5"
        "Exn OtherException ''connection refused''"]
      q1 q2 q3 b
    by simp
qed

text \<open>A store that answers is not cut short: the hit is returned.\<close>

lemma search_finds:
  "search up_store [PStr ''disk usage''] Map.empty = Inr [\<lparr>key = ''id-1'', score = 0\<rparr>]"
  by (simp add: search_def search_normalize_def positional_query_def lookup_def up_store_def
      one_hit_backend_def)

section \<open>Properties of the registry cache\<close>

lemma backup_path_differs: "backup_path \<noteq> TOOL_REGISTRY_CACHE_PATH"
  by (simp add: backup_path_def)




lemma validate_registry_ok:
  assumes "items \<noteq> []" "list_all has_tool_fields items"
  shows "validate_registry (PDict items) = Inr (PDict items)"
proof -
  have "find (\<lambda>item. \<not> has_tool_fields item) items = None"
    using assms(2) by (auto simp: find_None_iff list_all_iff)
  with assms(1) show ?thesis by (simp add: validate_registry_def)
qed

lemma load_valid:
  assumes "fs TOOL_REGISTRY_CACHE_PATH = Some (Pickled (PDict items))"
    and "items \<noteq> []" "list_all has_tool_fields items"
  shows "load_tool_registry_from_cache env fs = (Inr (Some (PDict items)), fs)"
  using assms validate_registry_ok [OF assms(2,3)]
  by (simp add: load_tool_registry_from_cache_def load_attempt_def pickle_load_def)




lemma dict_put_nonempty: "dict_put k v items \<noteq> []"
  by (cases items) (auto split: if_splits)

lemma dict_put_fields:
  "list_all has_tool_fields items \<Longrightarrow> has_tool_fields (k, v)
     \<Longrightarrow> list_all has_tool_fields (dict_put k v items)"
  by (induction items) (auto simp: has_tool_fields_def)

lemma tool_obj_fields: "has_tool_fields (k, tool_obj t)"
  by (simp add: has_tool_fields_def tool_obj_def)

lemma registry_items_fields:
  "list_all has_tool_fields items \<Longrightarrow> list_all has_tool_fields (registry_items uuid4 i ts items)"
  by (induction ts arbitrary: i items) (simp_all add: dict_put_fields tool_obj_fields)

lemma registry_items_nonempty:
  "ts \<noteq> [] \<or> items \<noteq> [] \<Longrightarrow> registry_items uuid4 i ts items \<noteq> []"
  by (induction ts arbitrary: i items) (simp_all add: dict_put_nonempty)

lemma save_written:
  assumes "write_outcome_of env reg = Written"
  shows "fst (save_tool_registry_to_cache env reg fs) = True
         \<and> snd (save_tool_registry_to_cache env reg fs) TOOL_REGISTRY_CACHE_PATH = Some (Pickled reg)"
  using assms backup_path_differs
  by (auto simp: save_tool_registry_to_cache_def pickle_dump_def os_remove_def os_rename_def Let_def
      split: option.splits)

lemma save_failed_restores:
  assumes "fs TOOL_REGISTRY_CACHE_PATH = Some prior"
    and "write_outcome_of env reg \<noteq> Written"
    and "\<not> refuses env (Rename TOOL_REGISTRY_CACHE_PATH backup_path)"
    and "\<not> refuses env (Rename backup_path TOOL_REGISTRY_CACHE_PATH)"
  shows "fst (save_tool_registry_to_cache env reg fs) = False
         \<and> snd (save_tool_registry_to_cache env reg fs) TOOL_REGISTRY_CACHE_PATH = Some prior
         \<and> snd (save_tool_registry_to_cache env reg fs) backup_path = None"
  using assms backup_path_differs
  by (cases "write_outcome_of env reg")
    (auto simp: save_tool_registry_to_cache_def pickle_dump_def os_rename_def Let_def)

text \<open>
  Claim C9, as stated, fails twice.  A registry built from no tools is saved as an
  empty dictionary, which the load rejects as corrupt: the round trip gives \<open>None\<close>.
  And when the operating system refuses the rename to the backup path and the write
  then fails after the file was opened, the earlier cache is overwritten, no backup
  exists and the function returns \<open>False\<close>: neither the earlier nor a new cache is left.
\<close>

theorem persist_then_load_counterexample:
  "fst (save_tool_registry_to_cache kind_os (build_registry sample_uuid []) no_files)
   \<and> fst (load_tool_registry_from_cache kind_os
        (snd (save_tool_registry_to_cache kind_os (build_registry sample_uuid []) no_files)))
       = Inr None
   \<and> \<not> fst (save_tool_registry_to_cache hostile_os (build_registry sample_uuid [cat_tool])
             (cache_holding (Pickled (build_registry sample_uuid [ls_tool]))))
   \<and> snd (save_tool_registry_to_cache hostile_os (build_registry sample_uuid [cat_tool])
             (cache_holding (Pickled (build_registry sample_uuid [ls_tool]))))
         TOOL_REGISTRY_CACHE_PATH
       = Some Empty_file
   \<and> snd (save_tool_registry_to_cache hostile_os (build_registry sample_uuid [cat_tool])
             (cache_holding (Pickled (build_registry sample_uuid [ls_tool]))))
         backup_path
       = None"
proof -
  have e: "build_registry sample_uuid [] = PDict []" by (simp add: build_registry_def)
  have a: "save_tool_registry_to_cache kind_os (PDict []) no_files
      = (True, [TOOL_REGISTRY_CACHE_PATH \<mapsto> Pickled (PDict [])])"
    using backup_path_differs
    by (simp add: save_tool_registry_to_cache_def pickle_dump_def no_files_def kind_os_def
        always_written_def)
  have b: "fst (load_tool_registry_from_cache kind_os [TOOL_REGISTRY_CACHE_PATH \<mapsto> Pickled (PDict [])])
      = Inr None"
    by (simp add: load_tool_registry_from_cache_def load_attempt_def pickle_load_def
        validate_registry_def)
  have c: "save_tool_registry_to_cache hostile_os (build_registry sample_uuid [cat_tool])
             (cache_holding (Pickled (build_registry sample_uuid [ls_tool])))
      = (False, [TOOL_REGISTRY_CACHE_PATH \<mapsto> Empty_file])"
    using backup_path_differs
    by (simp add: save_tool_registry_to_cache_def pickle_dump_def os_rename_def hostile_os_def
        refusing_def disk_full_def cache_holding_def)
  show ?thesis using backup_path_differs by (simp add: e a b c)
qed

text \<open>
  Claim C9, amended.  For a registry built from at least one tool, a save whose write
  succeeds returns \<open>True\<close>, and the load that follows returns that very registry
  (every identifier with its name and description) and leaves the file in place.
  When the write fails and the operating system refuses neither the rename of the
  existing cache to the backup path nor the rename back, the save returns \<open>False\<close>, the
  cache file holds what it held before, and no backup is left.
\<close>

theorem persist_then_load:
  "(all_tools \<noteq> [] \<and> write_outcome_of env (build_registry uuid4 all_tools) = Written \<longrightarrow>
      fst (save_tool_registry_to_cache env (build_registry uuid4 all_tools) fs) = True
      \<and> load_tool_registry_from_cache env
           (snd (save_tool_registry_to_cache env (build_registry uuid4 all_tools) fs))
          = (Inr (Some (build_registry uuid4 all_tools)),
             snd (save_tool_registry_to_cache env (build_registry uuid4 all_tools) fs)))
   \<and> (fs TOOL_REGISTRY_CACHE_PATH = Some prior \<and> write_outcome_of env reg \<noteq> Written
        \<and> \<not> refuses env (Rename TOOL_REGISTRY_CACHE_PATH backup_path)
        \<and> \<not> refuses env (Rename backup_path TOOL_REGISTRY_CACHE_PATH) \<longrightarrow>
      fst (save_tool_registry_to_cache env reg fs) = False
      \<and> snd (save_tool_registry_to_cache env reg fs) TOOL_REGISTRY_CACHE_PATH = Some prior
      \<and> snd (save_tool_registry_to_cache env reg fs) backup_path = None)"
proof -
  have p1: "all_tools \<noteq> [] \<and> write_outcome_of env (build_registry uuid4 all_tools) = Written \<longrightarrow>
      fst (save_tool_registry_to_cache env (build_registry uuid4 all_tools) fs) = True
      \<and> load_tool_registry_from_cache env
           (snd (save_tool_registry_to_cache env (build_registry uuid4 all_tools) fs))
          = (Inr (Some (build_registry uuid4 all_tools)),
             snd (save_tool_registry_to_cache env (build_registry uuid4 all_tools) fs))"
  proof
    assume a: "all_tools \<noteq> [] \<and> write_outcome_of env (build_registry uuid4 all_tools) = Written"
    define items where "items = registry_items uuid4 0 all_tools []"
    have reg: "build_registry uuid4 all_tools = PDict items"
      by (simp add: build_registry_def items_def)
    have ne: "items \<noteq> []" using a by (simp add: items_def registry_items_nonempty)
    have ok: "list_all has_tool_fields items"
      by (simp add: items_def registry_items_fields)
    from a have w: "write_outcome_of env (PDict items) = Written" by (simp add: reg)
    show "fst (save_tool_registry_to_cache env (build_registry uuid4 all_tools) fs) = True
      \<and> load_tool_registry_from_cache env
           (snd (save_tool_registry_to_cache env (build_registry uuid4 all_tools) fs))
          = (Inr (Some (build_registry uuid4 all_tools)),
             snd (save_tool_registry_to_cache env (build_registry uuid4 all_tools) fs))"
      unfolding reg using save_written [OF w, of fs] load_valid [OF _ ne ok] by simp
  qed
  have p2: "fs TOOL_REGISTRY_CACHE_PATH = Some prior \<and> write_outcome_of env reg \<noteq> Written
        \<and> \<not> refuses env (Rename TOOL_REGISTRY_CACHE_PATH backup_path)
        \<and> \<not> refuses env (Rename backup_path TOOL_REGISTRY_CACHE_PATH) \<longrightarrow>
      fst (save_tool_registry_to_cache env reg fs) = False
      \<and> snd (save_tool_registry_to_cache env reg fs) TOOL_REGISTRY_CACHE_PATH = Some prior
      \<and> snd (save_tool_registry_to_cache env reg fs) backup_path = None"
    using save_failed_restores [of fs prior env reg] by blast
  show ?thesis by (rule conjI [OF p1 p2])
qed

theorem persist_then_load_witness:
  "fst (save_tool_registry_to_cache kind_os (build_registry sample_uuid [ls_tool, cat_tool]) no_files)
   \<and> fst (load_tool_registry_from_cache kind_os
        (snd (save_tool_registry_to_cache kind_os (build_registry sample_uuid [ls_tool, cat_tool])
                no_files)))
       = Inr (Some (build_registry sample_uuid [ls_tool, cat_tool]))
   \<and> \<not> fst (save_tool_registry_to_cache full_os (build_registry sample_uuid [cat_tool])
             (cache_holding (Pickled (build_registry sample_uuid [ls_tool]))))
   \<and> snd (save_tool_registry_to_cache full_os (build_registry sample_uuid [cat_tool])
             (cache_holding (Pickled (build_registry sample_uuid [ls_tool]))))
         TOOL_REGISTRY_CACHE_PATH
       = Some (Pickled (build_registry sample_uuid [ls_tool]))"
proof -
  have h1: "[ls_tool, cat_tool] \<noteq> []
      \<and> write_outcome_of kind_os (build_registry sample_uuid [ls_tool, cat_tool]) = Written"
    by (simp add: kind_os_def always_written_def)
  have h2: "cache_holding (Pickled (build_registry sample_uuid [ls_tool])) TOOL_REGISTRY_CACHE_PATH
        = Some (Pickled (build_registry sample_uuid [ls_tool]))
      \<and> write_outcome_of full_os (build_registry sample_uuid [cat_tool]) \<noteq> Written
      \<and> \<not> refuses full_os (Rename TOOL_REGISTRY_CACHE_PATH backup_path)
      \<and> \<not> refuses full_os (Rename backup_path TOOL_REGISTRY_CACHE_PATH)"
    by (simp add: cache_holding_def full_os_def disk_full_def permissive_def)
  show ?thesis
    using persist_then_load [of "[ls_tool, cat_tool]" kind_os sample_uuid no_files]
      persist_then_load [of _ full_os _ "cache_holding (Pickled (build_registry sample_uuid [ls_tool]))"
        "Pickled (build_registry sample_uuid [ls_tool])" "build_registry sample_uuid [cat_tool]"]
      h1 h2
    by simp
qed

section \<open>Properties of the scanner\<close>

lemma distinct_essential_commands: "distinct essential_commands"
  by (simp add: essential_commands_def)

lemma essential_base_disjoint:
  "list_all (\<lambda>cmd. cmd \<notin> BASE_COMMANDS_TO_EXCLUDE) essential_commands"
  by code_simp

lemma essential_managers_disjoint:
  "list_all (\<lambda>cmd. cmd \<notin> set [''apt'', ''yum'', ''dnf'', ''pacman'', ''zypper'', ''apt-get'', ''dpkg'',
      ''brew'', ''choco'', ''winget'', ''scoop'']) essential_commands"
  by code_simp

lemma managers_known:
  "discover_package_managers h \<subseteq>
     set [''apt'', ''yum'', ''dnf'', ''pacman'', ''zypper'', ''apt-get'', ''dpkg'', ''brew'', ''choco'',
      ''winget'', ''scoop'']"
  unfolding discover_package_managers_def known_managers_def by (simp split: if_splits)

lemma essential_not_excluded:
  assumes "cmd \<in> set essential_commands"
  shows "cmd \<notin> COMMANDS_TO_EXCLUDE h"
proof -
  have "cmd \<notin> BASE_COMMANDS_TO_EXCLUDE"
    using assms essential_base_disjoint unfolding list_all_iff by blast
  moreover have "cmd \<notin> set [''apt'', ''yum'', ''dnf'', ''pacman'', ''zypper'', ''apt-get'', ''dpkg'',
      ''brew'', ''choco'', ''winget'', ''scoop'']"
    using assms essential_managers_disjoint unfolding list_all_iff by blast
  then have "cmd \<notin> discover_package_managers h"
    using managers_known [of h] by (rule contra_subsetD [rotated])
  ultimately show ?thesis by (simp add: COMMANDS_TO_EXCLUDE_def)
qed

lemma sorted_valid_cmds_set:
  "set (sorted_valid_cmds h) = set (path_executables h) - COMMANDS_TO_EXCLUDE h"
  by (simp add: sorted_valid_cmds_def discover_executables_from_path_def)

lemma sorted_valid_cmds_distinct: "distinct (sorted_valid_cmds h)"
  by (simp add: sorted_valid_cmds_def)

lemma add_essentials_set:
  "set (add_essentials h es v) = set v \<union> {c \<in> set es. which h c}"
  by (induction es arbitrary: v) auto

lemma add_essentials_distinct: "distinct v \<Longrightarrow> distinct (add_essentials h es v)"
  by (induction es arbitrary: v) auto

lemma valid_cmds_distinct: "distinct (valid_cmds_with_essentials h)"
  by (simp add: valid_cmds_with_essentials_def add_essentials_distinct sorted_valid_cmds_distinct)

lemma essential_present_in_valid:
  assumes "cmd \<in> set essential_commands" "which h cmd \<or> cmd \<in> set (path_executables h)"
  shows "cmd \<in> set (valid_cmds_with_essentials h)"
  using assms essential_not_excluded [OF assms(1), of h]
  by (auto simp: valid_cmds_with_essentials_def add_essentials_set sorted_valid_cmds_set)

lemma remove_nth_length: "j < length pool \<Longrightarrow> length (take j pool @ drop (Suc j) pool) = length pool - 1"
  by auto

lemma remove_nth_set: "set (take j pool @ drop (Suc j) pool) \<subseteq> set pool"
  by (auto dest: in_set_takeD in_set_dropD)

lemma remove_nth_distinct:
  assumes "distinct pool" "j < length pool"
  shows "distinct (take j pool @ drop (Suc j) pool) \<and> pool ! j \<notin> set (take j pool @ drop (Suc j) pool)"
proof -
  have "pool = take j pool @ pool ! j # drop (Suc j) pool"
    using assms(2) by (rule id_take_nth_drop)
  then have "distinct (take j pool @ pool ! j # drop (Suc j) pool)"
    using assms(1) by simp
  then show ?thesis by auto
qed

lemma draw_length: "k \<le> length pool \<Longrightarrow> length (draw rs pool k) = k"
proof (induction k arbitrary: pool)
  case 0
  then show ?case by simp
next
  case (Suc k)
  then have pos: "0 < length pool" by arith
  then have j: "rs (Suc k) mod length pool < length pool" by (rule mod_less_divisor)
  have "k \<le> length (take (rs (Suc k) mod length pool) pool @ drop (Suc (rs (Suc k) mod length pool)) pool)"
    using Suc.prems j by (simp only: remove_nth_length)
  then show ?case using Suc.IH by (simp add: Let_def)
qed

lemma draw_set: "k \<le> length pool \<Longrightarrow> set (draw rs pool k) \<subseteq> set pool"
proof (induction k arbitrary: pool)
  case 0
  then show ?case by simp
next
  case (Suc k)
  let ?j = "rs (Suc k) mod length pool"
  let ?rest = "take ?j pool @ drop (Suc ?j) pool"
  from Suc.prems have "0 < length pool" by arith
  then have j: "?j < length pool" by (rule mod_less_divisor)
  then have "k \<le> length ?rest" using Suc.prems by (simp only: remove_nth_length)
  then have "set (draw rs ?rest k) \<subseteq> set ?rest" by (rule Suc.IH)
  moreover have "set ?rest \<subseteq> set pool" by (rule remove_nth_set)
  moreover have "pool ! ?j \<in> set pool" using j by simp
  ultimately show ?case by (auto simp: Let_def)
qed

lemma draw_distinct: "k \<le> length pool \<Longrightarrow> distinct pool \<Longrightarrow> distinct (draw rs pool k)"
proof (induction k arbitrary: pool)
  case 0
  then show ?case by simp
next
  case (Suc k)
  let ?j = "rs (Suc k) mod length pool"
  let ?rest = "take ?j pool @ drop (Suc ?j) pool"
  from Suc.prems have "0 < length pool" by arith
  then have j: "?j < length pool" by (rule mod_less_divisor)
  then have len: "k \<le> length ?rest" using Suc.prems by (simp only: remove_nth_length)
  have d: "distinct ?rest" "pool ! ?j \<notin> set ?rest"
    using remove_nth_distinct [OF Suc.prems(2) j] by simp_all
  have "distinct (draw rs ?rest k)" using len d(1) by (rule Suc.IH)
  moreover have "set (draw rs ?rest k) \<subseteq> set ?rest" using len by (rule draw_set)
  ultimately show ?case using d(2) by (auto simp: Let_def)
qed

lemma split_by_essential:
  assumes "distinct v"
  shows "length (essential_found v) + length (other_cmds v) = length v"
proof -
  have "length (essential_found v) = card (set essential_commands \<inter> set v)"
    unfolding essential_found_def
    by (simp add: distinct_length_filter [OF distinct_essential_commands] Int_commute Collect_conj_eq
        Collect_mem_eq)
  also have "\<dots> = length (filter (\<lambda>cmd. cmd \<in> set essential_commands) v)"
    by (simp add: distinct_length_filter [OF assms] Int_commute)
  finally have "length (essential_found v) = length (filter (\<lambda>cmd. cmd \<in> set essential_commands) v)" .
  moreover have "length (filter (\<lambda>cmd. cmd \<in> set essential_commands) v) + length (other_cmds v) = length v"
    unfolding other_cmds_def by (rule sum_length_filter_compl)
  ultimately show ?thesis by simp
qed

lemma enforce_ceiling_over:
  assumes d: "distinct v" and over: "max_tools < length v"
    and few: "length (essential_found v) < max_tools"
  shows "\<exists>sampled_others.
           enforce_ceiling max_tools rs v = Inr (essential_found v @ sampled_others)
           \<and> length (essential_found v @ sampled_others) = max_tools
           \<and> distinct (essential_found v @ sampled_others)
           \<and> set sampled_others \<subseteq> set (other_cmds v)"
proof -
  let ?k = "max_tools - length (essential_found v)"
  have sum: "length (essential_found v) + length (other_cmds v) = length v"
    using d by (rule split_by_essential)
  have k: "?k \<le> length (other_cmds v)" using sum over few by simp
  have rem: "int max_tools - int (length (essential_found v)) > 0" using few by simp
  have nat_rem: "nat (int max_tools - int (length (essential_found v))) = ?k" by simp
  have m: "min ?k (length (other_cmds v)) = ?k" using k by simp
  have eq: "enforce_ceiling max_tools rs v = Inr (essential_found v @ draw rs (other_cmds v) ?k)"
    using over rem k unfolding enforce_ceiling_def Let_def nat_rem m
    by (simp add: random_sample_def)
  have d_other: "distinct (other_cmds v)" using d by (simp add: other_cmds_def)
  have d_ef: "distinct (essential_found v)"
    by (simp add: essential_found_def distinct_essential_commands)
  have sub: "set (draw rs (other_cmds v) ?k) \<subseteq> set (other_cmds v)" using k by (rule draw_set)
  have disj: "set (essential_found v) \<inter> set (other_cmds v) = {}"
    by (auto simp: essential_found_def other_cmds_def)
  have "distinct (essential_found v @ draw rs (other_cmds v) ?k)"
    using d_ef draw_distinct [OF k d_other] sub disj by auto
  moreover have "length (essential_found v @ draw rs (other_cmds v) ?k) = max_tools"
    using draw_length [OF k] few by simp
  ultimately show ?thesis using eq sub by blast
qed

text \<open>
  Claim C5.  With the ceiling as a parameter: when the candidate list (after the
  essential commands were appended) is longer than the ceiling and fewer essential
  commands are in it than the ceiling, the ceiling enforcement returns the essential
  commands found, followed by commands sampled from the candidates that are not
  essential; the result has exactly as many elements as the ceiling, without
  repetition, and holds every essential command that \<open>shutil.which\<close> finds or that the
  walk over \<open>PATH\<close> collected.
\<close>

theorem ceiling_keeps_essentials:
  assumes "max_tools < length (valid_cmds_with_essentials h)"
    and "length (essential_found (valid_cmds_with_essentials h)) < max_tools"
  shows "\<exists>sampled_others.
           candidate_commands max_tools h
             = Inr (essential_found (valid_cmds_with_essentials h) @ sampled_others)
           \<and> length (essential_found (valid_cmds_with_essentials h) @ sampled_others) = max_tools
           \<and> distinct (essential_found (valid_cmds_with_essentials h) @ sampled_others)
           \<and> set sampled_others \<subseteq> set (other_cmds (valid_cmds_with_essentials h))
           \<and> (\<forall>cmd \<in> set essential_commands.
                which h cmd \<or> cmd \<in> set (path_executables h) \<longrightarrow>
                cmd \<in> set (essential_found (valid_cmds_with_essentials h) @ sampled_others))"
proof -
  obtain sampled_others where s:
    "enforce_ceiling max_tools (random_source h) (valid_cmds_with_essentials h)
       = Inr (essential_found (valid_cmds_with_essentials h) @ sampled_others)"
    "length (essential_found (valid_cmds_with_essentials h) @ sampled_others) = max_tools"
    "distinct (essential_found (valid_cmds_with_essentials h) @ sampled_others)"
    "set sampled_others \<subseteq> set (other_cmds (valid_cmds_with_essentials h))"
    using enforce_ceiling_over [OF valid_cmds_distinct assms] by blast
  have "\<forall>cmd \<in> set essential_commands.
          which h cmd \<or> cmd \<in> set (path_executables h) \<longrightarrow>
          cmd \<in> set (essential_found (valid_cmds_with_essentials h) @ sampled_others)"
    using essential_present_in_valid [of _ h] by (auto simp: essential_found_def)
  with s show ?thesis unfolding candidate_commands_def by blast
qed

theorem ceiling_keeps_essentials_witness:
  "2 < length (valid_cmds_with_essentials small_host)
   \<and> length (essential_found (valid_cmds_with_essentials small_host)) < 2
   \<and> ''ls'' \<in> set essential_commands \<and> which small_host ''ls''
   \<and> (\<exists>sampled_others.
         candidate_commands 2 small_host = Inr (''ls'' # sampled_others)
         \<and> length (''ls'' # sampled_others) = 2
         \<and> set sampled_others \<subseteq> {''aa'', ''bb'', ''cc''})"
proof -
  have v: "valid_cmds_with_essentials small_host = [''aa'', ''bb'', ''cc'', ''ls'']"
    by code_simp
  have ef: "essential_found [''aa'', ''bb'', ''cc'', ''ls''] = [''ls'']"
    and ot: "other_cmds [''aa'', ''bb'', ''cc'', ''ls''] = [''aa'', ''bb'', ''cc'']"
    by code_simp+
  have h1: "2 < length (valid_cmds_with_essentials small_host)"
    and h2: "length (essential_found (valid_cmds_with_essentials small_host)) < 2"
    by (simp_all add: v ef)
  have e: "''ls'' \<in> set essential_commands" "which small_host ''ls''"
    by (simp_all add: essential_commands_def small_host_def only_ls_def)
  from ceiling_keeps_essentials [OF h1 h2] obtain sampled_others where
    "candidate_commands 2 small_host = Inr ([''ls''] @ sampled_others)"
    "length ([''ls''] @ sampled_others) = 2"
    "set sampled_others \<subseteq> set [''aa'', ''bb'', ''cc'']"
    unfolding v ef ot by blast
  then have "\<exists>sampled_others.
         candidate_commands 2 small_host = Inr (''ls'' # sampled_others)
         \<and> length (''ls'' # sampled_others) = 2
         \<and> set sampled_others \<subseteq> {''aa'', ''bb'', ''cc''}"
    by (intro exI [of _ sampled_others]) simp
  with h1 h2 e show ?thesis by blast
qed

text \<open>
  In the program the ceiling is 2000 and there are nine essential commands, so the
  second hypothesis always holds.
\<close>

lemma essential_found_short: "length (essential_found v) \<le> 9"
proof -
  have "length (essential_found v) \<le> length essential_commands"
    unfolding essential_found_def by (rule length_filter_le)
  then show ?thesis by (simp add: essential_commands_def)
qed

lemma program_ceiling:
  assumes "MAX_TOOLS_TO_CREATE < length (valid_cmds_with_essentials h)"
  shows "\<exists>sampled_others.
           candidate_commands MAX_TOOLS_TO_CREATE h
             = Inr (essential_found (valid_cmds_with_essentials h) @ sampled_others)
           \<and> length (essential_found (valid_cmds_with_essentials h) @ sampled_others) = 2000"
proof -
  have "length (essential_found (valid_cmds_with_essentials h)) < MAX_TOOLS_TO_CREATE"
    using essential_found_short [of "valid_cmds_with_essentials h"]
    by (simp add: MAX_TOOLS_TO_CREATE_def)
  from enforce_ceiling_over [OF valid_cmds_distinct assms this, of "random_source h"]
  obtain sampled_others where
    "enforce_ceiling MAX_TOOLS_TO_CREATE (random_source h) (valid_cmds_with_essentials h)
       = Inr (essential_found (valid_cmds_with_essentials h) @ sampled_others)"
    "length (essential_found (valid_cmds_with_essentials h) @ sampled_others) = MAX_TOOLS_TO_CREATE"
    by blast
  then show ?thesis
    unfolding candidate_commands_def by (intro exI [of _ sampled_others]) (simp add: MAX_TOOLS_TO_CREATE_def)
qed

lemma marker_length: "length TRUNCATION_MARKER = 28"
  by (simp add: TRUNCATION_MARKER_def)

lemma truncate_help_length: "length (truncate_help s) \<le> MAX_HELP_TEXT_LENGTH + 28"
  by (simp add: truncate_help_def marker_length)

lemma describe_length: "length (describe command help_text) = 47 + length command + length help_text"
  by (simp add: describe_def)

lemma essential_commands_short: "list_all (\<lambda>cmd. length cmd \<le> 5) essential_commands"
  by code_simp

lemma make_tool_bound:
  assumes "make_tool command fetched = Some t"
  shows "tool_name t = command
         \<and> length (tool_description t) \<le> MAX_HELP_TEXT_LENGTH + 75 + length command"
proof (cases "truncate_help fetched = [] \<or> str_contains ''No help page found'' (truncate_help fetched)")
  case True
  with assms have e: "command \<in> set essential_commands"
    and t: "t = \<lparr>tool_name = command,
                 tool_description = describe command (''Essential file system command: '' @ command),
                 tool_func = command\<rparr>"
    by (auto simp: make_tool_def Let_def split: if_splits)
  from e have "length command \<le> 5"
    using essential_commands_short unfolding list_all_iff by blast
  then show ?thesis by (simp add: t describe_length MAX_HELP_TEXT_LENGTH_def)
next
  case False
  with assms have t: "t = \<lparr>tool_name = command,
                 tool_description = describe command (truncate_help fetched),
                 tool_func = command\<rparr>"
    by (auto simp: make_tool_def Let_def split: if_splits)
  show ?thesis
    using truncate_help_length [of fetched] by (simp add: t describe_length)
qed

lemma create_tools_bound:
  "create_tools h cmds = Inr tools \<Longrightarrow> t \<in> set tools \<Longrightarrow>
     length (tool_description t) \<le> MAX_HELP_TEXT_LENGTH + 75 + length (tool_name t)"
proof (induction cmds arbitrary: tools)
  case Nil
  then show ?case by simp
next
  case (Cons command rest)
  from Cons.prems(1) obtain help_text rest_tools where
    g: "get_command_help h command = Inr help_text"
    and r: "create_tools h rest = Inr rest_tools"
    and ts: "tools = (case make_tool command help_text of None \<Rightarrow> rest_tools | Some t \<Rightarrow> t # rest_tools)"
    by (auto split: sum.splits)
  show ?case
  proof (cases "t \<in> set rest_tools")
    case True
    with r show ?thesis by (rule Cons.IH)
  next
    case False
    with ts Cons.prems(2) have "make_tool command help_text = Some t"
      by (auto split: option.splits)
    from make_tool_bound [OF this] show ?thesis by simp
  qed
qed

lemma long_help_length: "length long_help = 30001"
  by (simp add: long_help_def)

lemma long_help_chars: "set (take n long_help) \<subseteq> {CHR ''a''}"
proof -
  have "set (take n long_help) \<subseteq> set long_help" by (rule set_take_subset)
  also have "\<dots> \<subseteq> {CHR ''a''}" unfolding long_help_def by (rule set_replicate_conv_if [THEN equalityD1, THEN subset_trans]) simp
  finally show ?thesis .
qed

lemma truncated_long_help:
  "truncate_help long_help = take MAX_HELP_TEXT_LENGTH long_help @ TRUNCATION_MARKER"
  by (simp add: truncate_help_def long_help_length MAX_HELP_TEXT_LENGTH_def)

lemma truncated_long_help_kept:
  "\<not> str_contains ''No help page found'' (take MAX_HELP_TEXT_LENGTH long_help @ TRUNCATION_MARKER)"
proof
  assume "str_contains ''No help page found'' (take MAX_HELP_TEXT_LENGTH long_help @ TRUNCATION_MARKER)"
  then have "set ''No help page found'' \<subseteq> set (take MAX_HELP_TEXT_LENGTH long_help @ TRUNCATION_MARKER)"
    unfolding str_contains_def by (rule set_mono_sublist)
  then have "CHR ''N'' \<in> set (take MAX_HELP_TEXT_LENGTH long_help) \<union> set TRUNCATION_MARKER"
    by auto
  moreover have "CHR ''N'' \<notin> set TRUNCATION_MARKER" by (simp add: TRUNCATION_MARKER_def)
  ultimately have "CHR ''N'' \<in> {CHR ''a''}"
    using long_help_chars [of MAX_HELP_TEXT_LENGTH] by blast
  then show False by simp
qed

lemma verbose_candidates: "candidate_commands MAX_TOOLS_TO_CREATE verbose_host = Inr [''ls'']"
proof -
  have "valid_cmds_with_essentials verbose_host = [''ls'']" by code_simp
  then show ?thesis
    by (simp add: candidate_commands_def enforce_ceiling_def MAX_TOOLS_TO_CREATE_def)
qed

lemma verbose_help: "get_command_help verbose_host ''ls'' = Inr long_help"
proof -
  have "long_help \<noteq> []" using long_help_length by auto
  then show ?thesis
    by (simp add: get_command_help_def verbose_host_def verbose_program_def)
qed

text \<open>
  Claim C4, as stated, fails: \<open>MAX_HELP_TEXT_LENGTH\<close> bounds the part of the help text
  that is kept, and the marker and the sentence that introduces the help page are
  added after the cut.  A help text of 30001 characters gives a description of 30077.
\<close>

theorem description_bound_counterexample:
  "load_system_command_tools verbose_host
     = Inr [\<lparr>tool_name = ''ls'',
             tool_description =
               describe ''ls'' (take MAX_HELP_TEXT_LENGTH long_help @ TRUNCATION_MARKER),
             tool_func = ''ls''\<rparr>]
   \<and> length (describe ''ls'' (take MAX_HELP_TEXT_LENGTH long_help @ TRUNCATION_MARKER)) = 30077
   \<and> MAX_HELP_TEXT_LENGTH = 30000"
proof -
  have m: "make_tool ''ls'' long_help
      = Some \<lparr>tool_name = ''ls'',
               tool_description =
                 describe ''ls'' (take MAX_HELP_TEXT_LENGTH long_help @ TRUNCATION_MARKER),
               tool_func = ''ls''\<rparr>"
    using truncated_long_help_kept
    by (simp add: make_tool_def truncated_long_help TRUNCATION_MARKER_def)
  have "load_system_command_tools verbose_host
     = Inr [\<lparr>tool_name = ''ls'',
             tool_description =
               describe ''ls'' (take MAX_HELP_TEXT_LENGTH long_help @ TRUNCATION_MARKER),
             tool_func = ''ls''\<rparr>]"
    by (simp add: load_system_command_tools_def verbose_candidates verbose_help m)
  moreover have "length (describe ''ls'' (take MAX_HELP_TEXT_LENGTH long_help @ TRUNCATION_MARKER)) = 30077"
    by (simp add: describe_length marker_length long_help_length MAX_HELP_TEXT_LENGTH_def)
  ultimately show ?thesis by (simp add: MAX_HELP_TEXT_LENGTH_def)
qed

text \<open>
  Claim C4, amended.  Every tool \<open>load_system_command_tools\<close> returns has a description
  of at most \<open>MAX_HELP_TEXT_LENGTH\<close> characters of help text, the 28 of the truncation
  marker, the 47 of the introducing sentence, and the name of the command: at most
  30075 plus the length of the name.
\<close>

theorem description_bound:
  assumes "load_system_command_tools h = Inr tools" and "t \<in> set tools"
  shows "length (tool_description t) \<le> MAX_HELP_TEXT_LENGTH + 75 + length (tool_name t)"
proof -
  from assms(1) obtain valid_cmds where "create_tools h valid_cmds = Inr tools"
    by (auto simp: load_system_command_tools_def split: sum.splits)
  then show ?thesis using assms(2) by (rule create_tools_bound)
qed

theorem description_bound_witness:
  "load_system_command_tools verbose_host
     = Inr [\<lparr>tool_name = ''ls'',
             tool_description =
               describe ''ls'' (take MAX_HELP_TEXT_LENGTH long_help @ TRUNCATION_MARKER),
             tool_func = ''ls''\<rparr>]
   \<and> length (describe ''ls'' (take MAX_HELP_TEXT_LENGTH long_help @ TRUNCATION_MARKER))
       \<le> MAX_HELP_TEXT_LENGTH + 75 + length ''ls''"
proof -
  have m: "make_tool ''ls'' long_help
      = Some \<lparr>tool_name = ''ls'',
               tool_description =
                 describe ''ls'' (take MAX_HELP_TEXT_LENGTH long_help @ TRUNCATION_MARKER),
               tool_func = ''ls''\<rparr>"
    using truncated_long_help_kept
    by (simp add: make_tool_def truncated_long_help TRUNCATION_MARKER_def)
  have l: "load_system_command_tools verbose_host
     = Inr [\<lparr>tool_name = ''ls'',
             tool_description =
               describe ''ls'' (take MAX_HELP_TEXT_LENGTH long_help @ TRUNCATION_MARKER),
             tool_func = ''ls''\<rparr>]"
    by (simp add: load_system_command_tools_def verbose_candidates verbose_help m)
  from description_bound [OF l, of "\<lparr>tool_name = ''ls'',
             tool_description =
               describe ''ls'' (take MAX_HELP_TEXT_LENGTH long_help @ TRUNCATION_MARKER),
             tool_func = ''ls''\<rparr>"]
  show ?thesis using l by simp
qed

end
